theory Spec2Isabelle
  imports Main "HOL-Library.Word"
begin

section \<open>betterpem: extraction of certificates and keys from PEM data\<close>

text \<open>
  The Go package \<open>betterpem\<close> (file \<open>main.go\<close>) consists of the input normaliser
  \<open>intoBytes\<close>, the result collection \<open>ParsedPEMs\<close> with its consuming methods, and the
  entry point \<open>ParsePEMs\<close>. The PEM decoder and the four DER parsers belong to Go's
  standard library; they are parameters of the model.
\<close>

subsection \<open>Values and errors\<close>

type_synonym byte = "8 word"

text \<open>
  The package declares and exports two error values. An error value made by a parser of
  the standard library is represented by its message; the standard library cannot name
  the two values of this package, so a parser's error is never one of them.
\<close>

type_synonym ext_error = string

datatype error =
    ErrPemUnderlyingFormatError
  | ErrPemIsUnsupportedType
  | ExternalError ext_error

text \<open>
  An \<open>io.Reader\<close> is represented by the chunks its successive \<open>Read\<close> calls deliver and by
  the condition that ends it: \<open>None\<close> is \<open>io.EOF\<close>, \<open>Some e\<close> a read failure.
  The reader is the caller's: its failure can be any error value, the two exported
  values of this package among them. \<open>io.ReadAll\<close> reads until the reader ends; it
  returns what it has read, and the reader's error unless that is \<open>io.EOF\<close>.
\<close>

datatype reader = Reader (chunks: "byte list list") (ending: "error option")

fun io_ReadAll :: "reader \<Rightarrow> byte list \<times> error option" where
  "io_ReadAll (Reader cs e) = (concat cs, e)"

text \<open>
  The argument of \<open>ParsePEMs\<close> has type \<open>interface{}\<close>. Its dynamic type is a byte slice,
  a string, something that implements \<open>io.Reader\<close>, or anything else (the nil interface,
  a number, ...).
\<close>

datatype go_value = GoNil | GoInt int | GoBool bool

datatype pem_input =
    ByteSlice "byte list"
  | GoString string
  | IoReader reader
  | OtherValue go_value

subsection \<open>\<open>intoBytes\<close>\<close>

text \<open>
  The type switch of \<open>intoBytes\<close>. A Go function returns all of its results: the pair is
  the byte slice (\<open>nil\<close> is the empty list) and the error (\<open>nil\<close> is \<open>None\<close>).
  The conversion \<open>[]byte(v)\<close> yields the bytes of the string. The error of
  \<open>io.ReadAll\<close> is returned as it is.
\<close>

fun intoBytes :: "pem_input \<Rightarrow> byte list \<times> error option" where
  "intoBytes (ByteSlice v) = (v, None)"
| "intoBytes (GoString v) = (map of_char v, None)"
| "intoBytes (IoReader v) =
     (case io_ReadAll v of
        (pemBytes, Some err) \<Rightarrow> ([], Some err)
      | (pemBytes, None) \<Rightarrow> (pemBytes, None))"
| "intoBytes (OtherValue v) = ([], Some ErrPemUnderlyingFormatError)"

subsection \<open>Parsed objects and \<open>ParsedPEMs\<close>\<close>

text \<open>
  The elements of \<open>objs\<close> are interface values. Their dynamic type is
  \<open>*x509.Certificate\<close>, \<open>*rsa.PrivateKey\<close>, \<open>*ecdsa.PrivateKey\<close>, or one of the other key
  types that \<open>x509.ParsePKCS8PrivateKey\<close> produces (\<open>ed25519.PrivateKey\<close>,
  \<open>*ecdh.PrivateKey\<close>). The parsed structures themselves are opaque: type parameters.
\<close>

datatype ('c, 'r, 'e, 'k) obj =
    Certificate 'c
  | RSAPrivateKey 'r
  | ECDSAPrivateKey 'e
  | OtherKey 'k

record ('c, 'r, 'e, 'k) ParsedPEMs =
  objs :: "('c, 'r, 'e, 'k) obj list"

text \<open>
  A panic is a runtime error of an index expression (index and length), or the message
  built by \<open>fmt.Sprintf("%#v is not ...", p.objs[0])\<close>: the offending object and the text.
\<close>

datatype ('c, 'r, 'e, 'k) panic =
    IndexOutOfRange nat nat
  | Message "('c, 'r, 'e, 'k) obj" string

definition Length :: "('c, 'r, 'e, 'k) ParsedPEMs \<Rightarrow> int" where
  "Length p = int (length (objs p))"

text \<open>
  The methods have a pointer receiver and assign to \<open>p.objs\<close>: each returns its outcome
  together with the receiver as it is when the call ends, by return or by panic.
\<close>

definition Interface ::
  "('c, 'r, 'e, 'k) ParsedPEMs \<Rightarrow>
     (('c, 'r, 'e, 'k) panic + ('c, 'r, 'e, 'k) obj) \<times> ('c, 'r, 'e, 'k) ParsedPEMs" where
  "Interface p =
     (case objs p of
        [] \<Rightarrow> (Inl (IndexOutOfRange 0 0), p)
      | ret # rem \<Rightarrow> (Inr ret, p\<lparr>objs := rem\<rparr>))"

definition MustCertificate ::
  "('c, 'r, 'e, 'k) ParsedPEMs \<Rightarrow>
     (('c, 'r, 'e, 'k) panic + 'c) \<times> ('c, 'r, 'e, 'k) ParsedPEMs" where
  "MustCertificate p =
     (case objs p of
        [] \<Rightarrow> (Inl (IndexOutOfRange 0 0), p)
      | x # rem \<Rightarrow>
          (case x of
             Certificate r \<Rightarrow> (Inr r, p\<lparr>objs := rem\<rparr>)
           | _ \<Rightarrow> (Inl (Message x ''is not an *x509.Certificate''), p)))"

definition MustRSAPrivateKey ::
  "('c, 'r, 'e, 'k) ParsedPEMs \<Rightarrow>
     (('c, 'r, 'e, 'k) panic + 'r) \<times> ('c, 'r, 'e, 'k) ParsedPEMs" where
  "MustRSAPrivateKey p =
     (case objs p of
        [] \<Rightarrow> (Inl (IndexOutOfRange 0 0), p)
      | x # rem \<Rightarrow>
          (case x of
             RSAPrivateKey r \<Rightarrow> (Inr r, p\<lparr>objs := rem\<rparr>)
           | _ \<Rightarrow> (Inl (Message x ''is not an rsa.PrivateKey''), p)))"

definition MustECPrivateKey ::
  "('c, 'r, 'e, 'k) ParsedPEMs \<Rightarrow>
     (('c, 'r, 'e, 'k) panic + 'e) \<times> ('c, 'r, 'e, 'k) ParsedPEMs" where
  "MustECPrivateKey p =
     (case objs p of
        [] \<Rightarrow> (Inl (IndexOutOfRange 0 0), p)
      | x # rem \<Rightarrow>
          (case x of
             ECDSAPrivateKey r \<Rightarrow> (Inr r, p\<lparr>objs := rem\<rparr>)
           | _ \<Rightarrow> (Inl (Message x ''is not an ecdsa.PrivateKey''), p)))"

subsection \<open>The standard library\<close>

text \<open>
  \<open>pem.Block\<close>, and the functions of \<open>encoding/pem\<close> and \<open>crypto/x509\<close> that \<open>ParsePEMs\<close>
  calls. \<open>pem.Decode\<close> returns the next block (\<open>None\<close> is the nil pointer) and the
  remaining input. \<open>x509.ParsePKCS8PrivateKey\<close> returns a value of type \<open>any\<close>.
\<close>

record Block =
  Type :: string
  Headers :: "(string \<times> string) list"
  Bytes :: "byte list"

record ('c, 'r, 'e, 'k) stdlib =
  pem_Decode :: "byte list \<Rightarrow> Block option \<times> byte list"
  x509_ParseCertificate :: "byte list \<Rightarrow> ext_error + 'c"
  x509_ParsePKCS1PrivateKey :: "byte list \<Rightarrow> ext_error + 'r"
  x509_ParseECPrivateKey :: "byte list \<Rightarrow> ext_error + 'e"
  x509_ParsePKCS8PrivateKey :: "byte list \<Rightarrow> ext_error + ('c, 'r, 'e, 'k) obj"

subsection \<open>\<open>ParsePEMs\<close>\<close>

text \<open>
  The \<open>for\<close> loop of \<open>ParsePEMs\<close>, on the cursor \<open>rest\<close> and the local slice \<open>objs\<close> (here \<open>acc\<close>).
  \<open>Inl err\<close> is the \<open>return ParsedPEMs{}, err\<close> inside the loop, \<open>Inr acc\<close> the \<open>break\<close>.
  Nothing in \<open>ParsePEMs\<close> bounds the number of iterations: a loop that does not end is
  \<open>None\<close>.
\<close>

partial_function (option) ParsePEMs_loop ::
  "('c, 'r, 'e, 'k) stdlib \<Rightarrow> byte list \<Rightarrow> ('c, 'r, 'e, 'k) obj list \<Rightarrow>
     (error + ('c, 'r, 'e, 'k) obj list) option" where
  "ParsePEMs_loop lib rest acc =
     (case pem_Decode lib rest of
        (None, rest') \<Rightarrow> Some (Inr acc)
      | (Some der, rest') \<Rightarrow>
          (if Type der = ''CERTIFICATE'' then
             (case x509_ParseCertificate lib (Bytes der) of
                Inl err \<Rightarrow> Some (Inl (ExternalError err))
              | Inr r \<Rightarrow> ParsePEMs_loop lib rest' (acc @ [Certificate r]))
           else if Type der = ''RSA PRIVATE KEY'' then
             (case x509_ParsePKCS1PrivateKey lib (Bytes der) of
                Inl err \<Rightarrow> Some (Inl (ExternalError err))
              | Inr r \<Rightarrow> ParsePEMs_loop lib rest' (acc @ [RSAPrivateKey r]))
           else if Type der = ''EC PRIVATE KEY'' then
             (case x509_ParseECPrivateKey lib (Bytes der) of
                Inl err \<Rightarrow> Some (Inl (ExternalError err))
              | Inr r \<Rightarrow> ParsePEMs_loop lib rest' (acc @ [ECDSAPrivateKey r]))
           else if Type der = ''PRIVATE KEY'' then
             (case x509_ParsePKCS8PrivateKey lib (Bytes der) of
                Inl err \<Rightarrow> Some (Inl (ExternalError err))
              | Inr r \<Rightarrow> ParsePEMs_loop lib rest' (acc @ [r]))
           else ParsePEMs_loop lib rest' acc))"

text \<open>
  \<open>ParsePEMs\<close> returns a \<open>ParsedPEMs\<close> and an error; with an error the \<open>ParsedPEMs\<close> is
  the zero value \<open>ParsedPEMs{}\<close>.
\<close>

definition ParsePEMs ::
  "('c, 'r, 'e, 'k) stdlib \<Rightarrow> pem_input \<Rightarrow>
     (('c, 'r, 'e, 'k) ParsedPEMs \<times> error option) option" where
  "ParsePEMs lib pemInt =
     (case intoBytes pemInt of
        (pemBytes, Some err) \<Rightarrow> Some (\<lparr>objs = []\<rparr>, Some err)
      | (pemBytes, None) \<Rightarrow>
          (case ParsePEMs_loop lib pemBytes [] of
             None \<Rightarrow> None
           | Some (Inl err) \<Rightarrow> Some (\<lparr>objs = []\<rparr>, Some err)
           | Some (Inr acc) \<Rightarrow>
               (if length acc > 0 then Some (\<lparr>objs = acc\<rparr>, None)
                else Some (\<lparr>objs = []\<rparr>, Some ErrPemIsUnsupportedType))))"

subsection \<open>Blocks of an input\<close>

text \<open>
  The blocks \<open>B1, ..., Bn\<close> of an input are what repeated calls of the decoder yield,
  each call on the rest that the call before has left, until the decoder finds no
  block. A decoder that never stops yielding blocks gives no such sequence (\<open>None\<close>).
\<close>

partial_function (option) blocks_of ::
  "(byte list \<Rightarrow> Block option \<times> byte list) \<Rightarrow> byte list \<Rightarrow> Block list option" where
  "blocks_of decode rest =
     (case decode rest of
        (None, rest') \<Rightarrow> Some []
      | (Some der, rest') \<Rightarrow>
          Option.bind (blocks_of decode rest') (\<lambda>ders. Some (der # ders)))"

text \<open>
  \<open>pem.Decode\<close> returns its argument as the rest when it finds no block and a proper
  suffix of it otherwise; only the second half matters here.
\<close>

definition consumes :: "(byte list \<Rightarrow> Block option \<times> byte list) \<Rightarrow> bool" where
  "consumes decode =
     (\<forall>data der rest. decode data = (Some der, rest) \<longrightarrow> length rest < length data)"

text \<open>The block types of the four \<open>case\<close> clauses of the switch.\<close>

definition recognized :: "Block \<Rightarrow> bool" where
  "recognized der =
     (Type der = ''CERTIFICATE'' \<or> Type der = ''RSA PRIVATE KEY'' \<or>
      Type der = ''EC PRIVATE KEY'' \<or> Type der = ''PRIVATE KEY'')"

text \<open>
  The switch of the loop body on its own, for one block: \<open>None\<close> for the \<open>default\<close>
  clause, otherwise what the parser of the matching clause returns, as the interface
  value that the clause appends.
\<close>

definition block_result ::
  "('c, 'r, 'e, 'k) stdlib \<Rightarrow> Block \<Rightarrow> (ext_error + ('c, 'r, 'e, 'k) obj) option" where
  "block_result lib der =
     (if Type der = ''CERTIFICATE'' then
        Some (map_sum id Certificate (x509_ParseCertificate lib (Bytes der)))
      else if Type der = ''RSA PRIVATE KEY'' then
        Some (map_sum id RSAPrivateKey (x509_ParsePKCS1PrivateKey lib (Bytes der)))
      else if Type der = ''EC PRIVATE KEY'' then
        Some (map_sum id ECDSAPrivateKey (x509_ParseECPrivateKey lib (Bytes der)))
      else if Type der = ''PRIVATE KEY'' then
        Some (x509_ParsePKCS8PrivateKey lib (Bytes der))
      else None)"

text \<open>The loop body applied to a given sequence of blocks, from the first to the last.\<close>

fun demux ::
  "('c, 'r, 'e, 'k) stdlib \<Rightarrow> Block list \<Rightarrow> ('c, 'r, 'e, 'k) obj list \<Rightarrow>
     error + ('c, 'r, 'e, 'k) obj list" where
  "demux lib [] acc = Inr acc"
| "demux lib (der # ders) acc =
     (case block_result lib der of
        None \<Rightarrow> demux lib ders acc
      | Some (Inl err) \<Rightarrow> Inl (ExternalError err)
      | Some (Inr r) \<Rightarrow> demux lib ders (acc @ [r]))"

subsection \<open>A small library instance\<close>

text \<open>
  For evaluating the model on concrete inputs: a decoder whose blocks are two bytes long,
  a type tag and one byte of content, and parsers that reject the content byte 0.
\<close>

definition demo_type :: "byte \<Rightarrow> string" where
  "demo_type t =
     (if t = 1 then ''CERTIFICATE''
      else if t = 2 then ''RSA PRIVATE KEY''
      else if t = 3 then ''EC PRIVATE KEY''
      else if t = 4 then ''PRIVATE KEY''
      else ''CERTIFICATE REQUEST'')"

fun demo_Decode :: "byte list \<Rightarrow> Block option \<times> byte list" where
  "demo_Decode (t # d # rest) =
     (Some \<lparr>Type = demo_type t, Headers = [], Bytes = [d]\<rparr>, rest)"
| "demo_Decode data = (None, data)"

fun demo_parse :: "byte list \<Rightarrow> ext_error + nat" where
  "demo_parse [d] = (if d = 0 then Inl ''malformed'' else Inr (unat d))"
| "demo_parse der = Inl ''malformed''"

fun demo_ParsePKCS8 :: "byte list \<Rightarrow> ext_error + (nat, nat, nat, nat) obj" where
  "demo_ParsePKCS8 [d] =
     (if d = 0 then Inl ''malformed''
      else if d < 64 then Inr (RSAPrivateKey (unat d))
      else if d < 128 then Inr (ECDSAPrivateKey (unat d))
      else Inr (OtherKey (unat d)))"
| "demo_ParsePKCS8 der = Inl ''malformed''"

definition demo_lib :: "(nat, nat, nat, nat) stdlib" where
  "demo_lib =
     \<lparr>pem_Decode = demo_Decode,
      x509_ParseCertificate = demo_parse,
      x509_ParsePKCS1PrivateKey = demo_parse,
      x509_ParseECPrivateKey = demo_parse,
      x509_ParsePKCS8PrivateKey = demo_ParsePKCS8\<rparr>"

text \<open>The two recursive equations are the code equations of the loops.\<close>

declare ParsePEMs_loop.simps [code]
declare blocks_of.simps [code]

section \<open>Properties\<close>

subsection \<open>The decoder and the loop\<close>

lemma blocks_of_stop: "decode rest = (None, rest') \<Longrightarrow> blocks_of decode rest = Some []"
  by (subst blocks_of.simps) simp

lemma blocks_of_step:
  "decode rest = (Some der, rest') \<Longrightarrow>
     blocks_of decode rest = map_option ((#) der) (blocks_of decode rest')"
  by (subst blocks_of.simps) (simp add: map_option_case bind_eq_None_conv split: option.splits)

lemma blocks_of_ConsD:
  assumes "blocks_of decode rest = Some (der # ders)"
  shows "\<exists>rest'. decode rest = (Some der, rest') \<and> blocks_of decode rest' = Some ders"
proof (cases "decode rest")
  case (Pair b rest')
  show ?thesis
  proof (cases b)
    case None
    with Pair assms show ?thesis by (simp add: blocks_of_stop)
  next
    case (Some d)
    with Pair assms show ?thesis by (auto simp: blocks_of_step)
  qed
qed

lemma blocks_of_NilD:
  assumes "blocks_of decode rest = Some []"
  shows "\<exists>rest'. decode rest = (None, rest')"
proof (cases "decode rest")
  case (Pair b rest')
  with assms show ?thesis by (cases b) (auto simp: blocks_of_step)
qed

lemma blocks_of_total:
  assumes "consumes decode"
  shows "\<exists>ders. blocks_of decode data = Some ders"
proof (induction data rule: length_induct)
  case (1 data)
  show ?case
  proof (cases "decode data")
    case (Pair b rest')
    show ?thesis
    proof (cases b)
      case None
      with Pair show ?thesis by (simp add: blocks_of_stop)
    next
      case (Some der)
      with Pair assms have "length rest' < length data"
        by (simp add: consumes_def)
      with 1 obtain ders where "blocks_of decode rest' = Some ders" by blast
      with Pair Some show ?thesis by (simp add: blocks_of_step)
    qed
  qed
qed

lemma loop_stop:
  "pem_Decode lib rest = (None, rest') \<Longrightarrow> ParsePEMs_loop lib rest acc = Some (Inr acc)"
  by (subst ParsePEMs_loop.simps) simp

lemma loop_step:
  "pem_Decode lib rest = (Some der, rest') \<Longrightarrow>
     ParsePEMs_loop lib rest acc =
       (case block_result lib der of
          None \<Rightarrow> ParsePEMs_loop lib rest' acc
        | Some (Inl err) \<Rightarrow> Some (Inl (ExternalError err))
        | Some (Inr r) \<Rightarrow> ParsePEMs_loop lib rest' (acc @ [r]))"
  by (subst ParsePEMs_loop.simps) (simp add: block_result_def split: sum.splits)

lemma loop_blocks:
  "blocks_of (pem_Decode lib) rest = Some ders \<Longrightarrow>
     ParsePEMs_loop lib rest acc = Some (demux lib ders acc)"
proof (induction ders arbitrary: rest acc)
  case Nil
  then show ?case by (auto dest: blocks_of_NilD simp: loop_stop)
next
  case (Cons der ders)
  from blocks_of_ConsD [OF Cons.prems] obtain rest' where
    d: "pem_Decode lib rest = (Some der, rest')" and
    b: "blocks_of (pem_Decode lib) rest' = Some ders" by blast
  show ?case
    by (simp add: loop_step [OF d] Cons.IH [OF b] split: option.splits sum.splits)
qed

lemma loop_total:
  assumes "consumes (pem_Decode lib)"
  shows "\<exists>res. ParsePEMs_loop lib rest acc = Some res"
  using blocks_of_total [OF assms, of rest] loop_blocks by blast

lemma block_result_None_iff: "block_result lib der = None \<longleftrightarrow> \<not> recognized der"
  by (simp add: block_result_def recognized_def)

lemma demux_filter: "demux lib (filter recognized ders) acc = demux lib ders acc"
proof (induction ders arbitrary: acc)
  case Nil
  show ?case by simp
next
  case (Cons der ders)
  show ?case
  proof (cases "recognized der")
    case True
    then show ?thesis by (simp add: Cons.IH split: option.splits sum.splits)
  next
    case False
    then have "block_result lib der = None" by (simp add: block_result_None_iff)
    with False show ?thesis by (simp add: Cons.IH)
  qed
qed

lemma demux_Inr:
  "demux lib ders acc = Inr os \<Longrightarrow>
     \<exists>new. os = acc @ new \<and>
       map (block_result lib) (filter recognized ders) = map (\<lambda>r. Some (Inr r)) new"
proof (induction ders arbitrary: acc)
  case Nil
  then show ?case by simp
next
  case (Cons der ders)
  show ?case
  proof (cases "block_result lib der")
    case None
    then have "\<not> recognized der" by (simp add: block_result_None_iff)
    with None Cons show ?thesis by simp
  next
    case (Some res)
    then have rec: "recognized der" using block_result_None_iff [of lib der] by simp
    show ?thesis
    proof (cases res)
      case (Inl err)
      with Some Cons.prems show ?thesis by simp
    next
      case (Inr r)
      with Some Cons.prems have "demux lib ders (acc @ [r]) = Inr os" by simp
      from Cons.IH [OF this] obtain new where
        "os = (acc @ [r]) @ new"
        "map (block_result lib) (filter recognized ders) = map (\<lambda>r. Some (Inr r)) new"
        by blast
      with rec Some Inr show ?thesis
        by (intro exI [of _ "r # new"]) simp
    qed
  qed
qed

lemma demux_first_failure:
  assumes "\<forall>d\<in>set pre. \<forall>e. block_result lib d \<noteq> Some (Inl e)"
    and "block_result lib der = Some (Inl err)"
  shows "demux lib (pre @ der # post) acc = Inl (ExternalError err)"
  using assms
proof (induction pre arbitrary: acc)
  case Nil
  then show ?case by simp
next
  case (Cons d pre)
  then show ?case by (auto split: option.splits sum.splits)
qed




lemma demux_no_failure:
  "\<forall>der\<in>set ders. \<forall>e. block_result lib der \<noteq> Some (Inl e) \<Longrightarrow>
     \<exists>os. demux lib ders acc = Inr os"
  by (induction ders arbitrary: acc) (auto split: option.splits sum.splits)

lemma ParsePEMs_blocks:
  assumes "intoBytes pemInt = (data, None)"
    and "blocks_of (pem_Decode lib) data = Some ders"
  shows "ParsePEMs lib pemInt =
    (case demux lib ders [] of
       Inl err \<Rightarrow> Some (\<lparr>objs = []\<rparr>, Some err)
     | Inr acc \<Rightarrow>
         (if acc = [] then Some (\<lparr>objs = []\<rparr>, Some ErrPemIsUnsupportedType)
          else Some (\<lparr>objs = acc\<rparr>, None)))"
  using assms by (simp add: ParsePEMs_def loop_blocks split: sum.splits)

text \<open>
  With a decoder that shortens its input whenever it yields a block, as \<open>pem.Decode\<close>
  does, the loop ends and \<open>ParsePEMs\<close> returns.
\<close>

lemma ParsePEMs_total:
  assumes "consumes (pem_Decode lib)"
  shows "\<exists>res. ParsePEMs lib pemInt = Some res"
proof -
  obtain data e where ib: "intoBytes pemInt = (data, e)" by (cases "intoBytes pemInt")
  from loop_total [OF assms] obtain res where "ParsePEMs_loop lib data [] = Some res"
    by blast
  with ib show ?thesis
    by (cases e; cases res) (simp_all add: ParsePEMs_def)
qed

lemma demo_Decode_consumes: "consumes (pem_Decode demo_lib)"
proof -
  have "length rest < length data" if "demo_Decode data = (Some der, rest)" for data der rest
    using that by (cases data rule: demo_Decode.cases) auto
  then show ?thesis by (simp add: consumes_def demo_lib_def)
qed

subsection \<open>Claims about \<open>ParsePEMs\<close>\<close>




text \<open>
  Claim C2. When some recognized block of the input fails its parser, \<open>ParsePEMs\<close>
  returns the error of the first block that does, together with the empty
  \<open>ParsedPEMs{}\<close>: nothing of what the blocks before it contributed is returned.
\<close>

theorem ParsePEMs_parser_failure_aborts:
  assumes "intoBytes pemInt = (data, None)"
    and "blocks_of (pem_Decode lib) data = Some ders"
    and "\<exists>d\<in>set ders. \<exists>e. block_result lib d = Some (Inl e)"
  shows "\<exists>pre der post err.
           ders = pre @ der # post \<and>
           (\<forall>d\<in>set pre. \<forall>e. block_result lib d \<noteq> Some (Inl e)) \<and>
           block_result lib der = Some (Inl err) \<and>
           ParsePEMs lib pemInt = Some (\<lparr>objs = []\<rparr>, Some (ExternalError err))"
proof -
  from assms(3) have "\<exists>d\<in>set ders. (\<exists>e. block_result lib d = Some (Inl e))" .
  then obtain pre der post where
    s: "ders = pre @ der # post" and
    f: "\<exists>e. block_result lib der = Some (Inl e)" and
    p: "\<forall>d\<in>set pre. \<not> (\<exists>e. block_result lib d = Some (Inl e))"
    by (auto simp: split_list_first_prop_iff)
  from f obtain err where e: "block_result lib der = Some (Inl err)" ..
  from p have p': "\<forall>d\<in>set pre. \<forall>e. block_result lib d \<noteq> Some (Inl e)" by blast
  have "demux lib (pre @ der # post) [] = Inl (ExternalError err)"
    using p' e by (rule demux_first_failure)
  with ParsePEMs_blocks [OF assms(1,2)] s
  have "ParsePEMs lib pemInt = Some (\<lparr>objs = []\<rparr>, Some (ExternalError err))" by simp
  with s p' e show ?thesis by blast
qed

theorem ParsePEMs_parser_failure_aborts_witness:
  "(\<exists>err. ParsePEMs demo_lib (ByteSlice [1, 5, 2, 0, 3, 7]) =
       Some (\<lparr>objs = []\<rparr>, Some (ExternalError err)))
   \<and> ParsePEMs demo_lib (ByteSlice [1, 5]) = Some (\<lparr>objs = [Certificate 5]\<rparr>, None)
   \<and> ParsePEMs demo_lib (ByteSlice [1, 5, 2, 0, 3, 7]) =
       Some (\<lparr>objs = []\<rparr>, Some (ExternalError ''malformed''))"
proof -
  let ?cert = "\<lparr>Type = ''CERTIFICATE'', Headers = [], Bytes = [5]\<rparr>"
  let ?rsa = "\<lparr>Type = ''RSA PRIVATE KEY'', Headers = [], Bytes = [0]\<rparr>"
  let ?ec = "\<lparr>Type = ''EC PRIVATE KEY'', Headers = [], Bytes = [7]\<rparr>"
  have i: "intoBytes (ByteSlice [1, 5, 2, 0, 3, 7]) = ([1, 5, 2, 0, 3, 7], None)"
    by simp
  have b: "blocks_of (pem_Decode demo_lib) [1, 5, 2, 0, 3, 7] = Some [?cert, ?rsa, ?ec]"
    by code_simp
  have "block_result demo_lib ?rsa = Some (Inl ''malformed'')"
    by code_simp
  then have f: "\<exists>d\<in>set [?cert, ?rsa, ?ec]. \<exists>e. block_result demo_lib d = Some (Inl e)"
    by simp
  from ParsePEMs_parser_failure_aborts [OF i b f]
  have "\<exists>err. ParsePEMs demo_lib (ByteSlice [1, 5, 2, 0, 3, 7]) =
       Some (\<lparr>objs = []\<rparr>, Some (ExternalError err))"
    by blast
  moreover have "ParsePEMs demo_lib (ByteSlice [1, 5]) = Some (\<lparr>objs = [Certificate 5]\<rparr>, None)"
    by code_simp
  moreover have "ParsePEMs demo_lib (ByteSlice [1, 5, 2, 0, 3, 7]) =
       Some (\<lparr>objs = []\<rparr>, Some (ExternalError ''malformed''))"
    by code_simp
  ultimately show ?thesis by blast
qed

text \<open>
  Claim C5. An iteration of the loop compares the type of the decoded block with four
  strings: \<open>CERTIFICATE\<close> goes to \<open>x509.ParseCertificate\<close>, \<open>RSA PRIVATE KEY\<close> to
  \<open>x509.ParsePKCS1PrivateKey\<close>, \<open>EC PRIVATE KEY\<close> to \<open>x509.ParseECPrivateKey\<close> and
  \<open>PRIVATE KEY\<close> to \<open>x509.ParsePKCS8PrivateKey\<close>; a parsed object is appended and a
  failure ends the call. With a block of any other type the loop goes on as if the
  block were not there. For the whole call, on an input with the blocks \<open>B1, ..., Bn\<close>:
  the outcome is the same as on any input with the same recognized blocks in the same
  order; when there is a recognized block and every recognized block parses, the call
  succeeds and returns one object for each recognized block and none for any other;
  and when exactly one block is recognized, the outcome is what the parser for its type
  returns on it, as the only element or as the error.
\<close>

theorem ParsePEMs_dispatch_and_skip:
  "(pem_Decode lib rest = (Some der, rest') \<longrightarrow>
      (Type der = ''CERTIFICATE'' \<longrightarrow>
         ParsePEMs_loop lib rest acc =
           (case x509_ParseCertificate lib (Bytes der) of
              Inl err \<Rightarrow> Some (Inl (ExternalError err))
            | Inr r \<Rightarrow> ParsePEMs_loop lib rest' (acc @ [Certificate r])))
      \<and> (Type der = ''RSA PRIVATE KEY'' \<longrightarrow>
         ParsePEMs_loop lib rest acc =
           (case x509_ParsePKCS1PrivateKey lib (Bytes der) of
              Inl err \<Rightarrow> Some (Inl (ExternalError err))
            | Inr r \<Rightarrow> ParsePEMs_loop lib rest' (acc @ [RSAPrivateKey r])))
      \<and> (Type der = ''EC PRIVATE KEY'' \<longrightarrow>
         ParsePEMs_loop lib rest acc =
           (case x509_ParseECPrivateKey lib (Bytes der) of
              Inl err \<Rightarrow> Some (Inl (ExternalError err))
            | Inr r \<Rightarrow> ParsePEMs_loop lib rest' (acc @ [ECDSAPrivateKey r])))
      \<and> (Type der = ''PRIVATE KEY'' \<longrightarrow>
         ParsePEMs_loop lib rest acc =
           (case x509_ParsePKCS8PrivateKey lib (Bytes der) of
              Inl err \<Rightarrow> Some (Inl (ExternalError err))
            | Inr r \<Rightarrow> ParsePEMs_loop lib rest' (acc @ [r])))
      \<and> (Type der \<notin> {''CERTIFICATE'', ''RSA PRIVATE KEY'', ''EC PRIVATE KEY'', ''PRIVATE KEY''} \<longrightarrow>
         ParsePEMs_loop lib rest acc = ParsePEMs_loop lib rest' acc))
   \<and> (intoBytes pemInt = (data, None) \<and> blocks_of (pem_Decode lib) data = Some ders \<longrightarrow>
      (\<forall>data' ders'. blocks_of (pem_Decode lib) data' = Some ders' \<and>
         filter recognized ders' = filter recognized ders \<longrightarrow>
         ParsePEMs lib (ByteSlice data') = ParsePEMs lib pemInt)
      \<and> ((\<exists>d\<in>set ders. recognized d) \<and>
          (\<forall>d\<in>set ders. \<forall>e. block_result lib d \<noteq> Some (Inl e)) \<longrightarrow>
          (\<exists>p. ParsePEMs lib pemInt = Some (p, None) \<and>
             length (objs p) = length (filter recognized ders) \<and>
             map (\<lambda>r. Some (Inr r)) (objs p) =
               map (block_result lib) (filter recognized ders)))
      \<and> (\<forall>one. filter recognized ders = [one] \<longrightarrow>
          ParsePEMs lib pemInt =
            (if Type one = ''CERTIFICATE'' then
               (case x509_ParseCertificate lib (Bytes one) of
                  Inl err \<Rightarrow> Some (\<lparr>objs = []\<rparr>, Some (ExternalError err))
                | Inr r \<Rightarrow> Some (\<lparr>objs = [Certificate r]\<rparr>, None))
             else if Type one = ''RSA PRIVATE KEY'' then
               (case x509_ParsePKCS1PrivateKey lib (Bytes one) of
                  Inl err \<Rightarrow> Some (\<lparr>objs = []\<rparr>, Some (ExternalError err))
                | Inr r \<Rightarrow> Some (\<lparr>objs = [RSAPrivateKey r]\<rparr>, None))
             else if Type one = ''EC PRIVATE KEY'' then
               (case x509_ParseECPrivateKey lib (Bytes one) of
                  Inl err \<Rightarrow> Some (\<lparr>objs = []\<rparr>, Some (ExternalError err))
                | Inr r \<Rightarrow> Some (\<lparr>objs = [ECDSAPrivateKey r]\<rparr>, None))
             else
               (case x509_ParsePKCS8PrivateKey lib (Bytes one) of
                  Inl err \<Rightarrow> Some (\<lparr>objs = []\<rparr>, Some (ExternalError err))
                | Inr r \<Rightarrow> Some (\<lparr>objs = [r]\<rparr>, None)))))"
proof (intro conjI impI)
  assume d: "pem_Decode lib rest = (Some der, rest')"
  note step = loop_step [OF d, of acc]
  show "Type der = ''CERTIFICATE'' \<Longrightarrow>
      ParsePEMs_loop lib rest acc =
        (case x509_ParseCertificate lib (Bytes der) of
           Inl err \<Rightarrow> Some (Inl (ExternalError err))
         | Inr r \<Rightarrow> ParsePEMs_loop lib rest' (acc @ [Certificate r]))"
    by (simp add: step block_result_def split: sum.splits)
  show "Type der = ''RSA PRIVATE KEY'' \<Longrightarrow>
      ParsePEMs_loop lib rest acc =
        (case x509_ParsePKCS1PrivateKey lib (Bytes der) of
           Inl err \<Rightarrow> Some (Inl (ExternalError err))
         | Inr r \<Rightarrow> ParsePEMs_loop lib rest' (acc @ [RSAPrivateKey r]))"
    by (simp add: step block_result_def split: sum.splits)
  show "Type der = ''EC PRIVATE KEY'' \<Longrightarrow>
      ParsePEMs_loop lib rest acc =
        (case x509_ParseECPrivateKey lib (Bytes der) of
           Inl err \<Rightarrow> Some (Inl (ExternalError err))
         | Inr r \<Rightarrow> ParsePEMs_loop lib rest' (acc @ [ECDSAPrivateKey r]))"
    by (simp add: step block_result_def split: sum.splits)
  show "Type der = ''PRIVATE KEY'' \<Longrightarrow>
      ParsePEMs_loop lib rest acc =
        (case x509_ParsePKCS8PrivateKey lib (Bytes der) of
           Inl err \<Rightarrow> Some (Inl (ExternalError err))
         | Inr r \<Rightarrow> ParsePEMs_loop lib rest' (acc @ [r]))"
    by (simp add: step block_result_def split: sum.splits)
  show "Type der \<notin> {''CERTIFICATE'', ''RSA PRIVATE KEY'', ''EC PRIVATE KEY'', ''PRIVATE KEY''} \<Longrightarrow>
      ParsePEMs_loop lib rest acc = ParsePEMs_loop lib rest' acc"
    by (simp add: step block_result_def)
next
  assume "intoBytes pemInt = (data, None) \<and> blocks_of (pem_Decode lib) data = Some ders"
  then have ib: "intoBytes pemInt = (data, None)"
    and bl: "blocks_of (pem_Decode lib) data = Some ders"
    by simp_all
  note whole = ParsePEMs_blocks [OF ib bl]
  show "\<forall>data' ders'. blocks_of (pem_Decode lib) data' = Some ders' \<and>
         filter recognized ders' = filter recognized ders \<longrightarrow>
         ParsePEMs lib (ByteSlice data') = ParsePEMs lib pemInt"
  proof (intro allI impI, elim conjE)
    fix data' ders'
    assume bl': "blocks_of (pem_Decode lib) data' = Some ders'"
      and same: "filter recognized ders' = filter recognized ders"
    have "intoBytes (ByteSlice data') = (data', None)" by simp
    note whole' = ParsePEMs_blocks [OF this bl']
    have "demux lib ders' [] = demux lib ders []"
      using demux_filter [of lib ders' "[]"] demux_filter [of lib ders "[]"] same by simp
    with whole whole' show "ParsePEMs lib (ByteSlice data') = ParsePEMs lib pemInt" by simp
  qed
  show "\<exists>p. ParsePEMs lib pemInt = Some (p, None) \<and>
             length (objs p) = length (filter recognized ders) \<and>
             map (\<lambda>r. Some (Inr r)) (objs p) =
               map (block_result lib) (filter recognized ders)"
    if h: "(\<exists>d\<in>set ders. recognized d) \<and>
           (\<forall>d\<in>set ders. \<forall>e. block_result lib d \<noteq> Some (Inl e))"
  proof -
    from h demux_no_failure [of ders lib "[]"] obtain os where os: "demux lib ders [] = Inr os"
      by blast
    from demux_Inr [OF os] have m: "map (block_result lib) (filter recognized ders) =
        map (\<lambda>r. Some (Inr r)) os"
      by simp
    then have len: "length os = length (filter recognized ders)"
      using length_map [of "block_result lib" "filter recognized ders"]
        length_map [of "\<lambda>r. Some (Inr r)" os] by simp
    from h have "filter recognized ders \<noteq> []" by (simp add: filter_empty_conv)
    with len have "os \<noteq> []" by auto
    with whole os have "ParsePEMs lib pemInt = Some (\<lparr>objs = os\<rparr>, None)" by simp
    with m len show ?thesis by simp
  qed
  show "\<forall>one. filter recognized ders = [one] \<longrightarrow>
          ParsePEMs lib pemInt =
            (if Type one = ''CERTIFICATE'' then
               (case x509_ParseCertificate lib (Bytes one) of
                  Inl err \<Rightarrow> Some (\<lparr>objs = []\<rparr>, Some (ExternalError err))
                | Inr r \<Rightarrow> Some (\<lparr>objs = [Certificate r]\<rparr>, None))
             else if Type one = ''RSA PRIVATE KEY'' then
               (case x509_ParsePKCS1PrivateKey lib (Bytes one) of
                  Inl err \<Rightarrow> Some (\<lparr>objs = []\<rparr>, Some (ExternalError err))
                | Inr r \<Rightarrow> Some (\<lparr>objs = [RSAPrivateKey r]\<rparr>, None))
             else if Type one = ''EC PRIVATE KEY'' then
               (case x509_ParseECPrivateKey lib (Bytes one) of
                  Inl err \<Rightarrow> Some (\<lparr>objs = []\<rparr>, Some (ExternalError err))
                | Inr r \<Rightarrow> Some (\<lparr>objs = [ECDSAPrivateKey r]\<rparr>, None))
             else
               (case x509_ParsePKCS8PrivateKey lib (Bytes one) of
                  Inl err \<Rightarrow> Some (\<lparr>objs = []\<rparr>, Some (ExternalError err))
                | Inr r \<Rightarrow> Some (\<lparr>objs = [r]\<rparr>, None)))"
  proof (intro allI impI)
    fix one
    assume f: "filter recognized ders = [one]"
    then have "one \<in> set (filter recognized ders)" by simp
    then have rec: "recognized one" by simp
    have "demux lib ders [] = demux lib [one] []"
      using demux_filter [of lib ders "[]"] f by simp
    with whole have eq: "ParsePEMs lib pemInt =
        (case block_result lib one of
           None \<Rightarrow> Some (\<lparr>objs = []\<rparr>, Some ErrPemIsUnsupportedType)
         | Some (Inl err) \<Rightarrow> Some (\<lparr>objs = []\<rparr>, Some (ExternalError err))
         | Some (Inr r) \<Rightarrow> Some (\<lparr>objs = [r]\<rparr>, None))"
      by (simp split: option.splits sum.splits)
    from rec consider
        (cert) "Type one = ''CERTIFICATE''"
      | (rsa) "Type one = ''RSA PRIVATE KEY''"
      | (ec) "Type one = ''EC PRIVATE KEY''"
      | (pkcs8) "Type one = ''PRIVATE KEY''"
      by (auto simp: recognized_def)
    then show "ParsePEMs lib pemInt =
            (if Type one = ''CERTIFICATE'' then
               (case x509_ParseCertificate lib (Bytes one) of
                  Inl err \<Rightarrow> Some (\<lparr>objs = []\<rparr>, Some (ExternalError err))
                | Inr r \<Rightarrow> Some (\<lparr>objs = [Certificate r]\<rparr>, None))
             else if Type one = ''RSA PRIVATE KEY'' then
               (case x509_ParsePKCS1PrivateKey lib (Bytes one) of
                  Inl err \<Rightarrow> Some (\<lparr>objs = []\<rparr>, Some (ExternalError err))
                | Inr r \<Rightarrow> Some (\<lparr>objs = [RSAPrivateKey r]\<rparr>, None))
             else if Type one = ''EC PRIVATE KEY'' then
               (case x509_ParseECPrivateKey lib (Bytes one) of
                  Inl err \<Rightarrow> Some (\<lparr>objs = []\<rparr>, Some (ExternalError err))
                | Inr r \<Rightarrow> Some (\<lparr>objs = [ECDSAPrivateKey r]\<rparr>, None))
             else
               (case x509_ParsePKCS8PrivateKey lib (Bytes one) of
                  Inl err \<Rightarrow> Some (\<lparr>objs = []\<rparr>, Some (ExternalError err))
                | Inr r \<Rightarrow> Some (\<lparr>objs = [r]\<rparr>, None)))"
    proof cases
      case cert
      then show ?thesis by (simp add: eq block_result_def split: sum.splits)
    next
      case rsa
      then show ?thesis by (simp add: eq block_result_def split: sum.splits)
    next
      case ec
      then show ?thesis by (simp add: eq block_result_def split: sum.splits)
    next
      case pkcs8
      then show ?thesis by (simp add: eq block_result_def split: sum.splits)
    qed
  qed
qed

theorem ParsePEMs_dispatch_and_skip_witness:
  "ParsePEMs_loop demo_lib [9, 9, 1, 5] [] = ParsePEMs_loop demo_lib [1, 5] []
   \<and> ParsePEMs_loop demo_lib [1, 5] [] = ParsePEMs_loop demo_lib [] [Certificate 5]
   \<and> ParsePEMs_loop demo_lib [2, 6] [] = ParsePEMs_loop demo_lib [] [RSAPrivateKey 6]
   \<and> ParsePEMs_loop demo_lib [3, 7] [] = ParsePEMs_loop demo_lib [] [ECDSAPrivateKey 7]
   \<and> ParsePEMs_loop demo_lib [4, 200] [] = ParsePEMs_loop demo_lib [] [OtherKey 200]
   \<and> ParsePEMs demo_lib (ByteSlice [1, 5]) = ParsePEMs demo_lib (ByteSlice [9, 9, 1, 5, 10])
   \<and> ParsePEMs demo_lib (ByteSlice [9, 9, 1, 5, 10]) = Some (\<lparr>objs = [Certificate 5]\<rparr>, None)
   \<and> (\<exists>p. ParsePEMs demo_lib (ByteSlice [9, 9, 1, 5, 10]) = Some (p, None) \<and>
          length (objs p) = 1)
   \<and> ParsePEMs demo_lib (ByteSlice [9, 9, 2, 0, 8, 8]) =
       Some (\<lparr>objs = []\<rparr>, Some (ExternalError ''malformed''))"
proof -
  let ?req = "\<lparr>Type = ''CERTIFICATE REQUEST'', Headers = [], Bytes = [9]\<rparr>"
  let ?req8 = "\<lparr>Type = ''CERTIFICATE REQUEST'', Headers = [], Bytes = [8]\<rparr>"
  let ?cert = "\<lparr>Type = ''CERTIFICATE'', Headers = [], Bytes = [5]\<rparr>"
  let ?rsa = "\<lparr>Type = ''RSA PRIVATE KEY'', Headers = [], Bytes = [6]\<rparr>"
  let ?bad = "\<lparr>Type = ''RSA PRIVATE KEY'', Headers = [], Bytes = [0]\<rparr>"
  let ?ec = "\<lparr>Type = ''EC PRIVATE KEY'', Headers = [], Bytes = [7]\<rparr>"
  let ?pkcs8 = "\<lparr>Type = ''PRIVATE KEY'', Headers = [], Bytes = [200]\<rparr>"
  note t = ParsePEMs_dispatch_and_skip [where lib = demo_lib and acc = "[]"]
  note ok = t [where pemInt = "ByteSlice [9, 9, 1, 5, 10]" and data = "[9, 9, 1, 5, 10]"
      and ders = "[?req, ?cert]"]
  note ko = t [where pemInt = "ByteSlice [9, 9, 2, 0, 8, 8]" and data = "[9, 9, 2, 0, 8, 8]"
      and ders = "[?req, ?bad, ?req8]" and rest = "[]" and der = ?req and rest' = "[]"]
  have d0: "pem_Decode demo_lib [9, 9, 1, 5] = (Some ?req, [1, 5])"
    and d1: "pem_Decode demo_lib [1, 5] = (Some ?cert, [])"
    and d2: "pem_Decode demo_lib [2, 6] = (Some ?rsa, [])"
    and d3: "pem_Decode demo_lib [3, 7] = (Some ?ec, [])"
    and d4: "pem_Decode demo_lib [4, 200] = (Some ?pkcs8, [])"
    by (simp_all add: demo_lib_def demo_type_def)
  have i: "intoBytes (ByteSlice [9, 9, 1, 5, 10]) = ([9, 9, 1, 5, 10], None)"
    and i': "intoBytes (ByteSlice [9, 9, 2, 0, 8, 8]) = ([9, 9, 2, 0, 8, 8], None)"
    by simp_all
  have b: "blocks_of (pem_Decode demo_lib) [9, 9, 1, 5, 10] = Some [?req, ?cert]"
    and b1: "blocks_of (pem_Decode demo_lib) [1, 5] = Some [?cert]"
    and b': "blocks_of (pem_Decode demo_lib) [9, 9, 2, 0, 8, 8] = Some [?req, ?bad, ?req8]"
    by code_simp+
  have f: "filter recognized [?req, ?cert] = [?cert]"
    and f1: "filter recognized [?cert] = filter recognized [?req, ?cert]"
    and f': "filter recognized [?req, ?bad, ?req8] = [?bad]"
    by (simp_all add: recognized_def)
  have r: "\<exists>d\<in>set [?req, ?cert]. recognized d"
    by (simp add: recognized_def)
  have n: "\<forall>d\<in>set [?req, ?cert]. \<forall>e. block_result demo_lib d \<noteq> Some (Inl e)"
    by (simp add: block_result_def demo_lib_def)
  have s0: "ParsePEMs_loop demo_lib [9, 9, 1, 5] [] = ParsePEMs_loop demo_lib [1, 5] []"
    using ok [where rest = "[9, 9, 1, 5]" and der = ?req and rest' = "[1, 5]"] d0 by simp
  have s1: "ParsePEMs_loop demo_lib [1, 5] [] = ParsePEMs_loop demo_lib [] [Certificate 5]"
    using ok [where rest = "[1, 5]" and der = ?cert and rest' = "[]"] d1
    by (simp add: demo_lib_def)
  have s2: "ParsePEMs_loop demo_lib [2, 6] [] = ParsePEMs_loop demo_lib [] [RSAPrivateKey 6]"
    using ok [where rest = "[2, 6]" and der = ?rsa and rest' = "[]"] d2
    by (simp add: demo_lib_def)
  have s3: "ParsePEMs_loop demo_lib [3, 7] [] = ParsePEMs_loop demo_lib [] [ECDSAPrivateKey 7]"
    using ok [where rest = "[3, 7]" and der = ?ec and rest' = "[]"] d3
    by (simp add: demo_lib_def)
  have s4: "ParsePEMs_loop demo_lib [4, 200] [] = ParsePEMs_loop demo_lib [] [OtherKey 200]"
    using ok [where rest = "[4, 200]" and der = ?pkcs8 and rest' = "[]"] d4
    by (simp add: demo_lib_def)
  note whole = ok [where rest = "[]" and der = ?req and rest' = "[]", THEN conjunct2, rule_format,
      OF conjI, OF i b]
  from whole b1 f1
  have w1: "ParsePEMs demo_lib (ByteSlice [1, 5]) = ParsePEMs demo_lib (ByteSlice [9, 9, 1, 5, 10])"
    by blast
  from whole r n
  have w2: "\<exists>p. ParsePEMs demo_lib (ByteSlice [9, 9, 1, 5, 10]) = Some (p, None) \<and>
      length (objs p) = length (filter recognized [?req, ?cert])"
    by blast
  then have w2': "\<exists>p. ParsePEMs demo_lib (ByteSlice [9, 9, 1, 5, 10]) = Some (p, None) \<and>
      length (objs p) = 1"
    by (simp add: recognized_def)
  from whole f
  have "ParsePEMs demo_lib (ByteSlice [9, 9, 1, 5, 10]) =
      (case x509_ParseCertificate demo_lib (Bytes ?cert) of
         Inl err \<Rightarrow> Some (\<lparr>objs = []\<rparr>, Some (ExternalError err))
       | Inr r \<Rightarrow> Some (\<lparr>objs = [Certificate r]\<rparr>, None))"
    by simp
  then have w3: "ParsePEMs demo_lib (ByteSlice [9, 9, 1, 5, 10]) =
      Some (\<lparr>objs = [Certificate 5]\<rparr>, None)"
    by (simp add: demo_lib_def)
  from ko [THEN conjunct2, rule_format, OF conjI, OF i' b'] f'
  have "ParsePEMs demo_lib (ByteSlice [9, 9, 2, 0, 8, 8]) =
      (case x509_ParsePKCS1PrivateKey demo_lib (Bytes ?bad) of
         Inl err \<Rightarrow> Some (\<lparr>objs = []\<rparr>, Some (ExternalError err))
       | Inr r \<Rightarrow> Some (\<lparr>objs = [RSAPrivateKey r]\<rparr>, None))"
    by simp
  then have w4: "ParsePEMs demo_lib (ByteSlice [9, 9, 2, 0, 8, 8]) =
      Some (\<lparr>objs = []\<rparr>, Some (ExternalError ''malformed''))"
    by (simp add: demo_lib_def)
  from s0 s1 s2 s3 s4 w1 w2' w3 w4 show ?thesis by blast
qed

text \<open>
  Claim C6. When \<open>ParsePEMs\<close> succeeds on an input with the blocks \<open>B1, ..., Bn\<close>, the
  elements of the returned \<open>ParsedPEMs\<close> are the parsed objects of the recognized blocks
  among them, one for each, in the order of the blocks.
\<close>

theorem ParsePEMs_preserves_order:
  assumes "intoBytes pemInt = (data, None)"
    and "blocks_of (pem_Decode lib) data = Some ders"
    and "ParsePEMs lib pemInt = Some (p, None)"
  shows "map (block_result lib) (filter recognized ders) = map (\<lambda>r. Some (Inr r)) (objs p)"
proof (cases "demux lib ders []")
  case (Inl err)
  with ParsePEMs_blocks [OF assms(1,2)] assms(3) show ?thesis by simp
next
  case (Inr acc)
  with ParsePEMs_blocks [OF assms(1,2)] assms(3) have "objs p = acc"
    by (auto split: if_splits)
  with demux_Inr [OF Inr] show ?thesis by auto
qed

theorem ParsePEMs_preserves_order_witness:
  "ParsePEMs demo_lib (ByteSlice [1, 5, 9, 9, 2, 6, 4, 200, 3, 7]) =
     Some (\<lparr>objs = [Certificate 5, RSAPrivateKey 6, OtherKey 200, ECDSAPrivateKey 7]\<rparr>, None)
   \<and> map (block_result demo_lib)
       [\<lparr>Type = ''CERTIFICATE'', Headers = [], Bytes = [5]\<rparr>,
        \<lparr>Type = ''RSA PRIVATE KEY'', Headers = [], Bytes = [6]\<rparr>,
        \<lparr>Type = ''PRIVATE KEY'', Headers = [], Bytes = [200]\<rparr>,
        \<lparr>Type = ''EC PRIVATE KEY'', Headers = [], Bytes = [7]\<rparr>] =
     [Some (Inr (Certificate 5)), Some (Inr (RSAPrivateKey 6)), Some (Inr (OtherKey 200)),
      Some (Inr (ECDSAPrivateKey 7))]"
proof -
  let ?ders = "[\<lparr>Type = ''CERTIFICATE'', Headers = [], Bytes = [5]\<rparr>,
        \<lparr>Type = ''CERTIFICATE REQUEST'', Headers = [], Bytes = [9]\<rparr>,
        \<lparr>Type = ''RSA PRIVATE KEY'', Headers = [], Bytes = [6]\<rparr>,
        \<lparr>Type = ''PRIVATE KEY'', Headers = [], Bytes = [200]\<rparr>,
        \<lparr>Type = ''EC PRIVATE KEY'', Headers = [], Bytes = [7]\<rparr>]"
  have i: "intoBytes (ByteSlice [1, 5, 9, 9, 2, 6, 4, 200, 3, 7]) =
      ([1, 5, 9, 9, 2, 6, 4, 200, 3, 7], None)"
    by simp
  have b: "blocks_of (pem_Decode demo_lib) [1, 5, 9, 9, 2, 6, 4, 200, 3, 7] = Some ?ders"
    by code_simp
  have s: "ParsePEMs demo_lib (ByteSlice [1, 5, 9, 9, 2, 6, 4, 200, 3, 7]) =
     Some (\<lparr>objs = [Certificate 5, RSAPrivateKey 6, OtherKey 200, ECDSAPrivateKey 7]\<rparr>, None)"
    by code_simp
  from ParsePEMs_preserves_order [OF i b s] s show ?thesis
    by (simp add: recognized_def)
qed





subsection \<open>Claims about \<open>intoBytes\<close>\<close>

text \<open>
  Claim C7. \<open>intoBytes\<close> returns a byte slice as it is, the bytes of a string, and all
  that a reader delivers up to its end; a read failure is returned as the error, whatever
  error value it is; every input of another type is answered with
  \<open>ErrPemUnderlyingFormatError\<close>. That error is returned for such an input, or passed on
  from a reader that failed with it, and in no other case.
\<close>

theorem intoBytes_cases:
  "intoBytes (ByteSlice v) = (v, None)
   \<and> intoBytes (GoString s) = (map of_char s, None)
   \<and> intoBytes (IoReader (Reader cs None)) = (concat cs, None)
   \<and> intoBytes (IoReader (Reader cs (Some e))) = ([], Some e)
   \<and> intoBytes (OtherValue x) = ([], Some ErrPemUnderlyingFormatError)
   \<and> ((\<forall>b. pemInt \<noteq> ByteSlice b) \<and> (\<forall>t. pemInt \<noteq> GoString t) \<and> (\<forall>rd. pemInt \<noteq> IoReader rd) \<longrightarrow>
        intoBytes pemInt = ([], Some ErrPemUnderlyingFormatError))
   \<and> (snd (intoBytes pemInt) = Some ErrPemUnderlyingFormatError) =
       ((\<exists>y. pemInt = OtherValue y) \<or>
        (\<exists>ds. pemInt = IoReader (Reader ds (Some ErrPemUnderlyingFormatError))))"
proof -
  have other: "intoBytes pemInt = ([], Some ErrPemUnderlyingFormatError)"
    if "\<forall>b. pemInt \<noteq> ByteSlice b" "\<forall>t. pemInt \<noteq> GoString t" "\<forall>rd. pemInt \<noteq> IoReader rd"
    using that by (cases pemInt) simp_all
  have only: "(snd (intoBytes pemInt) = Some ErrPemUnderlyingFormatError) =
       ((\<exists>y. pemInt = OtherValue y) \<or>
        (\<exists>ds. pemInt = IoReader (Reader ds (Some ErrPemUnderlyingFormatError))))"
  proof (cases pemInt)
    case (IoReader rd)
    then show ?thesis by (cases rd) (auto split: option.splits)
  qed auto
  from other only show ?thesis by simp
qed

theorem intoBytes_cases_witness:
  "intoBytes (ByteSlice [1, 5]) = ([1, 5], None)
   \<and> intoBytes (GoString ''AB'') = ([65, 66], None)
   \<and> intoBytes (IoReader (Reader [[1], [], [5, 9]] None)) = ([1, 5, 9], None)
   \<and> intoBytes (IoReader (Reader [[1], [], [5, 9]] (Some (ExternalError ''closed'')))) =
       ([], Some (ExternalError ''closed''))
   \<and> intoBytes (OtherValue (GoInt 3)) = ([], Some ErrPemUnderlyingFormatError)
   \<and> intoBytes (OtherValue GoNil) = ([], Some ErrPemUnderlyingFormatError)
   \<and> intoBytes (IoReader (Reader [[1]] (Some ErrPemUnderlyingFormatError))) =
       ([], Some ErrPemUnderlyingFormatError)"
proof -
  note t = intoBytes_cases
  have n: "(\<forall>b. OtherValue GoNil \<noteq> ByteSlice b) \<and> (\<forall>t. OtherValue GoNil \<noteq> GoString t) \<and>
      (\<forall>rd. OtherValue GoNil \<noteq> IoReader rd)"
    by simp
  from t [of "[1, 5]" "''AB''" "[[1], [], [5, 9]]" "ExternalError ''closed''" "GoInt 3"
      "OtherValue GoNil"] n
  have "intoBytes (ByteSlice [1, 5]) = ([1, 5], None)"
    and "intoBytes (GoString ''AB'') = ([65, 66], None)"
    and "intoBytes (IoReader (Reader [[1], [], [5, 9]] None)) = ([1, 5, 9], None)"
    and "intoBytes (IoReader (Reader [[1], [], [5, 9]] (Some (ExternalError ''closed'')))) =
       ([], Some (ExternalError ''closed''))"
    and "intoBytes (OtherValue (GoInt 3)) = ([], Some ErrPemUnderlyingFormatError)"
    and "intoBytes (OtherValue GoNil) = ([], Some ErrPemUnderlyingFormatError)"
    by simp_all
  moreover from t [of _ _ "[[1]]" ErrPemUnderlyingFormatError]
  have "intoBytes (IoReader (Reader [[1]] (Some ErrPemUnderlyingFormatError))) =
       ([], Some ErrPemUnderlyingFormatError)"
    by blast
  ultimately show ?thesis by blast
qed

subsection \<open>Claims about the methods of \<open>ParsedPEMs\<close>\<close>

text \<open>
  Claim C3, as stated: a typed accessor whose type does not match the front element
  fails and nevertheless removes that element. On \<open>[RSAPrivateKey 6]\<close>
  \<open>MustCertificate\<close> panics and leaves the one element where it is.
\<close>

theorem mismatch_consumes_counterexample:
  "fst (MustCertificate \<lparr>objs = [RSAPrivateKey 6 :: (nat, nat, nat, nat) obj]\<rparr>) =
     Inl (Message (RSAPrivateKey 6) ''is not an *x509.Certificate'')
   \<and> Length (snd (MustCertificate \<lparr>objs = [RSAPrivateKey 6 :: (nat, nat, nat, nat) obj]\<rparr>)) \<noteq>
       Length \<lparr>objs = [RSAPrivateKey 6 :: (nat, nat, nat, nat) obj]\<rparr> - 1"
  by (simp add: MustCertificate_def Length_def)

text \<open>
  Claim C3, amended. On a non-empty \<open>ParsedPEMs\<close> whose front element is not of the
  type that the accessor asserts, \<open>MustCertificate\<close>, \<open>MustRSAPrivateKey\<close> and
  \<open>MustECPrivateKey\<close> panic with a message that names the front element, and the
  \<open>ParsedPEMs\<close> is left as it was: the panic comes before the assignment to \<open>p.objs\<close>.
\<close>

theorem mismatch_panics_and_keeps_front:
  assumes "objs p = x # rest"
  shows "((\<forall>c. x \<noteq> Certificate c) \<longrightarrow>
            MustCertificate p = (Inl (Message x ''is not an *x509.Certificate''), p))
       \<and> ((\<forall>r. x \<noteq> RSAPrivateKey r) \<longrightarrow>
            MustRSAPrivateKey p = (Inl (Message x ''is not an rsa.PrivateKey''), p))
       \<and> ((\<forall>e. x \<noteq> ECDSAPrivateKey e) \<longrightarrow>
            MustECPrivateKey p = (Inl (Message x ''is not an ecdsa.PrivateKey''), p))"
  using assms
  by (cases x) (simp_all add: MustCertificate_def MustRSAPrivateKey_def MustECPrivateKey_def)

theorem mismatch_panics_and_keeps_front_witness:
  "MustCertificate \<lparr>objs = [ECDSAPrivateKey 7, Certificate 5 :: (nat, nat, nat, nat) obj]\<rparr> =
     (Inl (Message (ECDSAPrivateKey 7) ''is not an *x509.Certificate''),
      \<lparr>objs = [ECDSAPrivateKey 7, Certificate 5]\<rparr>)
   \<and> MustRSAPrivateKey \<lparr>objs = [ECDSAPrivateKey 7, Certificate 5 :: (nat, nat, nat, nat) obj]\<rparr> =
     (Inl (Message (ECDSAPrivateKey 7) ''is not an rsa.PrivateKey''),
      \<lparr>objs = [ECDSAPrivateKey 7, Certificate 5]\<rparr>)
   \<and> MustECPrivateKey \<lparr>objs = [Certificate 5, ECDSAPrivateKey 7 :: (nat, nat, nat, nat) obj]\<rparr> =
     (Inl (Message (Certificate 5) ''is not an ecdsa.PrivateKey''),
      \<lparr>objs = [Certificate 5, ECDSAPrivateKey 7]\<rparr>)"
proof -
  let ?p = "\<lparr>objs = [ECDSAPrivateKey 7, Certificate 5 :: (nat, nat, nat, nat) obj]\<rparr>"
  let ?q = "\<lparr>objs = [Certificate 5, ECDSAPrivateKey 7 :: (nat, nat, nat, nat) obj]\<rparr>"
  have hp: "objs ?p = ECDSAPrivateKey 7 # [Certificate 5]" by simp
  have hq: "objs ?q = Certificate 5 # [ECDSAPrivateKey 7]" by simp
  from mismatch_panics_and_keeps_front [OF hp] mismatch_panics_and_keeps_front [OF hq]
  show ?thesis by simp
qed

text \<open>
  Claim C4. On a \<open>ParsedPEMs\<close> of length 0 each of \<open>Interface\<close>, \<open>MustCertificate\<close>,
  \<open>MustRSAPrivateKey\<close> and \<open>MustECPrivateKey\<close> panics, on the index expression
  \<open>p.objs[0]\<close>, and returns no value.
\<close>

theorem consume_empty_panics:
  assumes "Length p = 0"
  shows "Interface p = (Inl (IndexOutOfRange 0 0), p)
       \<and> MustCertificate p = (Inl (IndexOutOfRange 0 0), p)
       \<and> MustRSAPrivateKey p = (Inl (IndexOutOfRange 0 0), p)
       \<and> MustECPrivateKey p = (Inl (IndexOutOfRange 0 0), p)"
  using assms
  by (simp add: Length_def Interface_def MustCertificate_def MustRSAPrivateKey_def
      MustECPrivateKey_def)

theorem consume_empty_panics_witness:
  "Length \<lparr>objs = [] :: (nat, nat, nat, nat) obj list\<rparr> = 0
   \<and> Interface \<lparr>objs = [] :: (nat, nat, nat, nat) obj list\<rparr> =
       (Inl (IndexOutOfRange 0 0), \<lparr>objs = []\<rparr>)
   \<and> MustCertificate \<lparr>objs = [] :: (nat, nat, nat, nat) obj list\<rparr> =
       (Inl (IndexOutOfRange 0 0), \<lparr>objs = []\<rparr>)
   \<and> MustRSAPrivateKey \<lparr>objs = [] :: (nat, nat, nat, nat) obj list\<rparr> =
       (Inl (IndexOutOfRange 0 0), \<lparr>objs = []\<rparr>)
   \<and> MustECPrivateKey \<lparr>objs = [] :: (nat, nat, nat, nat) obj list\<rparr> =
       (Inl (IndexOutOfRange 0 0), \<lparr>objs = []\<rparr>)"
proof -
  have h: "Length \<lparr>objs = [] :: (nat, nat, nat, nat) obj list\<rparr> = 0"
    by (simp add: Length_def)
  from consume_empty_panics [OF h] h show ?thesis by simp
qed

text \<open>
  Claim C9, as stated: for each of four variants, the PKCS#8 one among them, there is a
  typed accessor that returns the front element. The key of the \<open>PRIVATE KEY\<close> block
  below is of none of the three types that have an accessor; the three accessors there
  are panic on it, and \<open>ParsedPEMs\<close> has no other typed accessor.
\<close>

theorem no_accessor_for_pkcs8_counterexample:
  "ParsePEMs demo_lib (ByteSlice [4, 200]) = Some (\<lparr>objs = [OtherKey 200]\<rparr>, None)
   \<and> MustCertificate \<lparr>objs = [OtherKey 200 :: (nat, nat, nat, nat) obj]\<rparr> =
       (Inl (Message (OtherKey 200) ''is not an *x509.Certificate''), \<lparr>objs = [OtherKey 200]\<rparr>)
   \<and> MustRSAPrivateKey \<lparr>objs = [OtherKey 200 :: (nat, nat, nat, nat) obj]\<rparr> =
       (Inl (Message (OtherKey 200) ''is not an rsa.PrivateKey''), \<lparr>objs = [OtherKey 200]\<rparr>)
   \<and> MustECPrivateKey \<lparr>objs = [OtherKey 200 :: (nat, nat, nat, nat) obj]\<rparr> =
       (Inl (Message (OtherKey 200) ''is not an ecdsa.PrivateKey''), \<lparr>objs = [OtherKey 200]\<rparr>)"
  by code_simp

text \<open>
  Claim C9, amended. \<open>ParsedPEMs\<close> has a typed accessor for three types:
  \<open>MustCertificate\<close>, \<open>MustRSAPrivateKey\<close> and \<open>MustECPrivateKey\<close>. On a non-empty
  \<open>ParsedPEMs\<close> whose front element is of the asserted type, the accessor removes the
  front element and returns its value. A front element of another type is returned by
  none of the three; \<open>Interface\<close> removes and returns the front element whatever its type.
\<close>

theorem typed_accessors_return_front:
  assumes "objs p = x # rest"
  shows "(\<forall>c. x = Certificate c \<longrightarrow> MustCertificate p = (Inr c, p\<lparr>objs := rest\<rparr>))
       \<and> (\<forall>r. x = RSAPrivateKey r \<longrightarrow> MustRSAPrivateKey p = (Inr r, p\<lparr>objs := rest\<rparr>))
       \<and> (\<forall>e. x = ECDSAPrivateKey e \<longrightarrow> MustECPrivateKey p = (Inr e, p\<lparr>objs := rest\<rparr>))
       \<and> (\<forall>k. x = OtherKey k \<longrightarrow>
            (\<exists>m. fst (MustCertificate p) = Inl m) \<and> (\<exists>m. fst (MustRSAPrivateKey p) = Inl m) \<and>
            (\<exists>m. fst (MustECPrivateKey p) = Inl m))
       \<and> Interface p = (Inr x, p\<lparr>objs := rest\<rparr>)"
  using assms
  by (simp add: MustCertificate_def MustRSAPrivateKey_def MustECPrivateKey_def Interface_def)

theorem typed_accessors_return_front_witness:
  "MustCertificate \<lparr>objs = [Certificate 5, RSAPrivateKey 6 :: (nat, nat, nat, nat) obj]\<rparr> =
     (Inr 5, \<lparr>objs = [RSAPrivateKey 6]\<rparr>)
   \<and> MustRSAPrivateKey \<lparr>objs = [RSAPrivateKey 6, Certificate 5 :: (nat, nat, nat, nat) obj]\<rparr> =
     (Inr 6, \<lparr>objs = [Certificate 5]\<rparr>)
   \<and> MustECPrivateKey \<lparr>objs = [ECDSAPrivateKey 7 :: (nat, nat, nat, nat) obj]\<rparr> =
     (Inr 7, \<lparr>objs = []\<rparr>)
   \<and> Interface \<lparr>objs = [OtherKey 200, Certificate 5 :: (nat, nat, nat, nat) obj]\<rparr> =
     (Inr (OtherKey 200), \<lparr>objs = [Certificate 5]\<rparr>)"
proof -
  let ?a = "\<lparr>objs = [Certificate 5, RSAPrivateKey 6 :: (nat, nat, nat, nat) obj]\<rparr>"
  let ?b = "\<lparr>objs = [RSAPrivateKey 6, Certificate 5 :: (nat, nat, nat, nat) obj]\<rparr>"
  let ?c = "\<lparr>objs = [ECDSAPrivateKey 7 :: (nat, nat, nat, nat) obj]\<rparr>"
  let ?d = "\<lparr>objs = [OtherKey 200, Certificate 5 :: (nat, nat, nat, nat) obj]\<rparr>"
  have ha: "objs ?a = Certificate 5 # [RSAPrivateKey 6]" by simp
  have hb: "objs ?b = RSAPrivateKey 6 # [Certificate 5]" by simp
  have hc: "objs ?c = ECDSAPrivateKey 7 # []" by simp
  have hd: "objs ?d = OtherKey 200 # [Certificate 5]" by simp
  from typed_accessors_return_front [OF ha] typed_accessors_return_front [OF hb]
    typed_accessors_return_front [OF hc] typed_accessors_return_front [OF hd]
  show ?thesis by simp
qed

end
